theory Spec2Isabelle
  imports Complex_Main
begin

section \<open>Gradient synchronisation wrappers of fairseq\<close>

text \<open>
  A shallow embedding of \<^verbatim>\<open>fairseq/models/distributed_fairseq_model.py\<close> and of
  \<^verbatim>\<open>fairseq/model_parallel/megatron_trainer.py\<close>. Python exceptions are values of
  the type \<open>error\<close>; a function that can raise returns \<open>error + 'a\<close>, with \<open>Inl\<close> the
  exception. Mutation of \<^verbatim>\<open>args\<close>, of the parameters' \<^verbatim>\<open>grad\<close> slots and of the
  wrapper is explicit state passing. Tensor entries, norms and the momentum are real
  numbers: the arithmetic of the model is exact, rounding is not modelled.
\<close>

subsection \<open>Exceptions\<close>

datatype error =
    ImportError string
  | ValueError string
  | NameError string
  | AttributeError string string
  | RuntimeError string
  | ZeroDivisionError

subsection \<open>The configuration and the choice of the wrapper class\<close>

text \<open>
  The fields of \<^verbatim>\<open>args\<close> that \<^verbatim>\<open>DistributedFairseqModel\<close> reads.
  \<^verbatim>\<open>slowmo_momentum\<close> is \<open>None\<close> when the user did not set it.
\<close>

record args =
  tpu :: bool
  distributed_wrapper :: string
  ddp_backend :: string
  device_id :: int
  broadcast_buffers :: bool
  bucket_cap_mb :: int
  find_unused_parameters :: bool
  nprocs_per_node :: int
  slowmo_momentum :: "real option"
  slowmo_algorithm :: string
  localsgd_frequency :: int
  distributed_world_size :: int

text \<open>
  What the function reads from outside its arguments: the module-level flag
  \<^verbatim>\<open>_GOSSIP_DISABLED\<close> set by the guarded \<^verbatim>\<open>import gossip\<close>, the argument names
  \<^verbatim>\<open>inspect.getargspec(nn.parallel.DistributedDataParallel)[0]\<close> of the installed
  torch, and the environment variable \<^verbatim>\<open>COMM_HOOK_TYPE\<close> (\<open>None\<close> when unset).
\<close>

record environment =
  GOSSIP_DISABLED :: bool
  ddp_argspec :: "string list"
  COMM_HOOK_TYPE :: "string option"

datatype ddp_class =
    TPUDistributedDataParallel
  | DistributedDataParallel
  | LegacyDistributedDataParallel
  | GossipDataParallel

text \<open>
  The values of \<^verbatim>\<open>init_kwargs\<close>. The model and the process group are opaque handles
  that the function only passes on. The dictionary is an association list in the
  order of insertion.
\<close>

datatype kwarg =
    Model
  | ProcessGroup
  | IntV int
  | BoolV bool
  | IntListV "int list"
  | FloatOrNoneV "real option"

type_synonym init_kwargs = "(string \<times> kwarg) list"

text \<open>Lines 82--90: the default of \<^verbatim>\<open>args.slowmo_momentum\<close>, assigned to \<^verbatim>\<open>args\<close>.\<close>

definition assign_slowmo_momentum :: "args \<Rightarrow> args" where
  "assign_slowmo_momentum a =
     (if slowmo_momentum a = None then
        (if distributed_world_size a \<le> 16 then a\<lparr>slowmo_momentum := Some 0.0\<rparr>
         else if distributed_world_size a \<le> 32 then a\<lparr>slowmo_momentum := Some 0.2\<rparr>
         else if distributed_world_size a \<le> 64 then a\<lparr>slowmo_momentum := Some 0.5\<rparr>
         else a\<lparr>slowmo_momentum := Some 0.6\<rparr>)
      else a)"

definition gossip_import_message :: string where
  "gossip_import_message =
     ''Cannot find gossip library. Please install from: '' @
     ''github.com/facebookresearch/stochastic_gradient_push''"

text \<open>
  Lines 42--103: the \<^verbatim>\<open>if\<close>/\<^verbatim>\<open>elif\<close> chain that determines \<^verbatim>\<open>ddp_class\<close> and
  \<^verbatim>\<open>init_kwargs\<close>. The first component of the result is \<^verbatim>\<open>args\<close> as the chain
  leaves it. The \<^verbatim>\<open>assert isinstance(model, nn.Module)\<close> of line 43 is discharged by
  typing: the model is an \<^verbatim>\<open>nn.Module\<close> throughout this theory.
\<close>

definition select_ddp_class ::
  "environment \<Rightarrow> args \<Rightarrow> args \<times> (error + ddp_class \<times> init_kwargs)" where
  "select_ddp_class env a =
     (if tpu a then
        (a, Inr (TPUDistributedDataParallel,
                 [(''module'', Model), (''process_group'', ProcessGroup)]))
      else if distributed_wrapper a = ''DDP'' \<and> ddp_backend a = ''c10d'' then
        (a, Inr (DistributedDataParallel,
                 [(''module'', Model),
                  (''device_ids'', IntListV [device_id a]),
                  (''output_device'', IntV (device_id a)),
                  (''broadcast_buffers'', BoolV (broadcast_buffers a)),
                  (''bucket_cap_mb'', IntV (bucket_cap_mb a)),
                  (''process_group'', ProcessGroup)]
                 @ (if ''check_reduction'' \<in> set (ddp_argspec env)
                    then [(''check_reduction'', BoolV True)] else [])
                 @ (if ''find_unused_parameters'' \<in> set (ddp_argspec env)
                    then [(''find_unused_parameters'', BoolV (find_unused_parameters a))]
                    else [])))
      else if distributed_wrapper a = ''DDP'' \<and> ddp_backend a = ''no_c10d'' then
        (a, Inr (LegacyDistributedDataParallel,
                 [(''module'', Model),
                  (''buffer_size'', IntV (2 ^ 28)),
                  (''process_group'', ProcessGroup)]))
      else if distributed_wrapper a = ''SlowMo'' then
        (if GOSSIP_DISABLED env then (a, Inl (ImportError gossip_import_message))
         else
           (let a' = assign_slowmo_momentum a in
            (a', Inr (GossipDataParallel,
                      [(''module'', Model),
                       (''device_ids'', IntListV [device_id a']),
                       (''output_device'', IntV (device_id a')),
                       (''broadcast_buffers'', BoolV (broadcast_buffers a')),
                       (''nprocs_per_node'', IntV (nprocs_per_node a')),
                       (''slowmo_momentum'', FloatOrNoneV (slowmo_momentum a')),
                       (''localsgd'', BoolV (slowmo_algorithm a' = ''LocalSGD'')),
                       (''localsgd_frequency'', IntV (localsgd_frequency a'))]))))
      else (a, Inl (ValueError (''Unknown --ddp-backend: '' @ ddp_backend a))))"

subsection \<open>Construction of the wrapper and the communication hook\<close>

datatype comm_hook =
    fp16_compress_hook
  | powerSGD_hook
  | batched_powerSGD_hook
  | fp16_compress_wrapper comm_hook

text \<open>
  The first argument of \<^verbatim>\<open>register_comm_hook\<close>: the process group, or the
  \<^verbatim>\<open>PowerSGDState\<close> of line 129 with its \<^verbatim>\<open>matrix_approximation_rank\<close> and its
  \<^verbatim>\<open>start_powerSGD_iter\<close>.
\<close>

datatype hook_state = ProcessGroupState | PowerSGDState nat nat

text \<open>
  The object \<^verbatim>\<open>ddp_model\<close> of line 118: its base class, the arguments it was built
  from, and the hooks registered on it, in the order of registration.
\<close>

record ddp_model =
  wrapper_class :: ddp_class
  wrapper_kwargs :: init_kwargs
  comm_hooks :: "(hook_state \<times> comm_hook) list"

text \<open>The objects the function has created when it returns or raises.\<close>

datatype resource = WrapperObject ddp_class | PowerSGDStateObject

text \<open>
  \<^verbatim>\<open>ddp_model.register_comm_hook\<close> is a method of torch's
  \<^verbatim>\<open>DistributedDataParallel\<close>, which the source assumes to be the base class
  (comment of lines 119--120). The other three base classes have no such method; the
  lookup then goes through \<^verbatim>\<open>__getattr__\<close> to the wrapped model, which is taken to
  have none either, and fails.
\<close>

definition register_comm_hook ::
  "ddp_model \<Rightarrow> hook_state \<Rightarrow> comm_hook \<Rightarrow> error + ddp_model" where
  "register_comm_hook m st h =
     (if wrapper_class m = DistributedDataParallel
      then Inr (m\<lparr>comm_hooks := comm_hooks m @ [(st, h)]\<rparr>)
      else Inl (AttributeError ''_DistributedFairseqModel'' ''register_comm_hook''))"

text \<open>
  Lines 129--151. In the first branch the receiver is the name \<^verbatim>\<open>ddp\<close>, which is
  bound nowhere: it is no parameter or local of the function (\<^verbatim>\<open>args\<close>,
  \<^verbatim>\<open>model\<close>, \<^verbatim>\<open>process_group\<close>, \<^verbatim>\<open>ddp_class\<close>, \<^verbatim>\<open>init_kwargs\<close>,
  \<^verbatim>\<open>ddp_model\<close>, \<^verbatim>\<open>comm_hook_type\<close>, \<^verbatim>\<open>state\<close>), no global of the module
  (\<^verbatim>\<open>inspect\<close>, \<^verbatim>\<open>os\<close>, \<^verbatim>\<open>torch\<close>, \<^verbatim>\<open>dist\<close>, \<^verbatim>\<open>default\<close>, \<^verbatim>\<open>powerSGD\<close>,
  \<^verbatim>\<open>nn\<close>, \<^verbatim>\<open>distributed_utils\<close>, \<^verbatim>\<open>gossip\<close>, the classes) and no builtin.
  Evaluating it raises \<^verbatim>\<open>NameError\<close> before any call is made. The \<^verbatim>\<open>print\<close>
  calls of lines 123--128 are left out.
\<close>

definition register_hook_by_type :: "string option \<Rightarrow> ddp_model \<Rightarrow> error + ddp_model" where
  "register_hook_by_type comm_hook_type ddp_model =
     (let state = PowerSGDState 1 2 in
      if comm_hook_type = Some ''FP16_COMPRESS'' then
        Inl (NameError ''ddp'')
      else if comm_hook_type = Some ''POWER_SGD'' then
        register_comm_hook ddp_model state powerSGD_hook
      else if comm_hook_type = Some ''FP16_POWER_SGD'' then
        register_comm_hook ddp_model state (fp16_compress_wrapper powerSGD_hook)
      else if comm_hook_type = Some ''BATCHED_POWER_SGD'' then
        register_comm_hook ddp_model state batched_powerSGD_hook
      else if comm_hook_type = Some ''FP16_BATCHED_POWER_SGD'' then
        register_comm_hook ddp_model state (fp16_compress_wrapper batched_powerSGD_hook)
      else if comm_hook_type \<noteq> None then
        Inl (ValueError ''Unknown value of the environment variable COMM_HOOK_TYPE.'')
      else Inr ddp_model)"

text \<open>
  The whole function: \<^verbatim>\<open>args\<close> as it is left, the objects created, and the wrapper or
  the exception.
\<close>

definition DistributedFairseqModel ::
  "environment \<Rightarrow> args \<Rightarrow> args \<times> resource list \<times> (error + ddp_model)" where
  "DistributedFairseqModel env a =
     (case select_ddp_class env a of
        (a', Inl e) \<Rightarrow> (a', [], Inl e)
      | (a', Inr (cls, kw)) \<Rightarrow>
          (let ddp_model = \<lparr>wrapper_class = cls, wrapper_kwargs = kw, comm_hooks = []\<rparr>
           in (a', [WrapperObject cls, PowerSGDStateObject],
               register_hook_by_type (COMM_HOOK_TYPE env) ddp_model)))"

subsection \<open>Attribute lookup on the wrapper\<close>

text \<open>
  A Python object as far as attribute lookup sees it: the name of its class, an
  identity, the attributes that ordinary lookup finds (instance dictionary and class),
  and, for an \<^verbatim>\<open>nn.Module\<close>, the parameters, buffers and submodules registered on it.
  An object that is no module has nothing registered.
\<close>

datatype pyobj =
  Obj (type_name: string) (ident: nat)
      (dict: "(string \<times> pyobj) list") (registered: "(string \<times> pyobj) list")

text \<open>
  \<^verbatim>\<open>nn.Module.__getattr__\<close> is torch's, not code of this repository: it searches
  what is registered on the object and otherwise raises \<^verbatim>\<open>AttributeError\<close> with the
  message \<^verbatim>\<open>'<class>' object has no attribute '<name>'\<close>, the class being that of the
  object it was called on.
\<close>

definition nn_Module_getattr :: "pyobj \<Rightarrow> string \<Rightarrow> error + pyobj" where
  "nn_Module_getattr self name =
     (case map_of (registered self) name of
        Some v \<Rightarrow> Inr v
      | None \<Rightarrow> Inl (AttributeError (type_name self) name))"

text \<open>
  \<^verbatim>\<open>getattr(obj, name)\<close> and \<^verbatim>\<open>hasattr(obj, name)\<close> on an object whose class adds no
  \<^verbatim>\<open>__getattr__\<close> of its own: ordinary lookup first, \<^verbatim>\<open>nn.Module.__getattr__\<close> when
  that fails.
\<close>

definition getattr :: "pyobj \<Rightarrow> string \<Rightarrow> error + pyobj" where
  "getattr obj name =
     (case map_of (dict obj) name of
        Some v \<Rightarrow> Inr v
      | None \<Rightarrow> nn_Module_getattr obj name)"

definition hasattr :: "pyobj \<Rightarrow> string \<Rightarrow> bool" where
  "hasattr obj name = (case getattr obj name of Inr v \<Rightarrow> True | Inl e \<Rightarrow> False)"

text \<open>Lines 112--116: \<^verbatim>\<open>_DistributedFairseqModel.__getattr__\<close>.\<close>

definition DistributedFairseqModel_getattr :: "pyobj \<Rightarrow> string \<Rightarrow> error + pyobj" where
  "DistributedFairseqModel_getattr self name =
     (case nn_Module_getattr self ''module'' of
        Inl e \<Rightarrow> Inl e
      | Inr wrapped_module \<Rightarrow>
          if hasattr wrapped_module name then getattr wrapped_module name
          else nn_Module_getattr self name)"

text \<open>
  The expression \<^verbatim>\<open>ddp_model.name\<close>: Python calls the class's \<^verbatim>\<open>__getattr__\<close> only
  when ordinary lookup has failed.
\<close>

definition wrapper_lookup :: "pyobj \<Rightarrow> string \<Rightarrow> error + pyobj" where
  "wrapper_lookup self name =
     (case map_of (dict self) name of
        Some v \<Rightarrow> Inr v
      | None \<Rightarrow> DistributedFairseqModel_getattr self name)"

subsection \<open>The reduction of the gradients on a TPU\<close>

text \<open>
  A tensor is its shape, its entries and its \<^verbatim>\<open>requires_grad\<close> flag; a parameter is a
  tensor with a \<^verbatim>\<open>grad\<close> slot, \<open>None\<close> while no gradient was computed.
\<close>

record tensor =
  shape :: "nat list"
  entries :: "real list"
  requires_grad :: bool

record parameter = tensor +
  grad :: "tensor option"

text \<open>
  \<^verbatim>\<open>torch.zeros_like(p)\<close>: a new tensor of the shape of \<^verbatim>\<open>p\<close>, all entries zero,
  that does not require a gradient.
\<close>

definition zeros_like :: "'a tensor_scheme \<Rightarrow> tensor" where
  "zeros_like t =
     \<lparr>shape = shape t, entries = replicate (prod_list (shape t)) 0, requires_grad = False\<rparr>"

text \<open>
  The object \<^verbatim>\<open>self\<close> of \<^verbatim>\<open>TPUDistributedDataParallel\<close>: the parameters of the
  wrapped module in the order \<^verbatim>\<open>self.parameters()\<close> yields them, the process group
  (a tag and the replica groups) and the world size read at construction.
\<close>

record tpu_ddp =
  parameters :: "parameter list"
  process_group :: "string \<times> nat list list"
  world_size :: nat

text \<open>One call of the collective \<^verbatim>\<open>xm.all_reduce\<close>, as issued.\<close>

record collective_call =
  reduce_type :: string
  inputs :: "tensor list"
  scale :: real
  groups :: "nat list list"

definition requires_grad_message :: string where
  "requires_grad_message =
     ''TPUDistributedDataParallel only works with gradients that don't '' @
     ''require grad''"

text \<open>
  Lines 168--179, the loop over \<^verbatim>\<open>self.parameters()\<close>. The second argument is the
  list \<^verbatim>\<open>gradients\<close> built so far. The result holds the parameters as the loop
  leaves them, also when it raises: the parameters before the offending one have been
  visited, the ones after it have not.
\<close>

fun collect_gradients ::
  "parameter list \<Rightarrow> tensor list \<Rightarrow> parameter list \<times> (error + tensor list)" where
  "collect_gradients [] gradients = ([], Inr gradients)"
| "collect_gradients (p # ps) gradients =
     (if \<not> requires_grad p then
        (case collect_gradients ps gradients of (ps', r) \<Rightarrow> (p # ps', r))
      else
        (let g = (case grad p of None \<Rightarrow> zeros_like p | Some g \<Rightarrow> g);
             p' = p\<lparr>grad := Some g\<rparr>
         in if requires_grad g then (p' # ps, Inl (RuntimeError requires_grad_message))
            else (case collect_gradients ps (gradients @ [g]) of
                    (ps', r) \<Rightarrow> (p' # ps', r))))"

text \<open>
  \<^verbatim>\<open>xm.all_reduce('sum', tensors, scale, groups)\<close> is torch_xla's, not code of this
  repository. It replaces every tensor of the list by the sum, over the members of
  the group, of the tensors they pass at that position, times \<^verbatim>\<open>scale\<close>. \<open>peers\<close>
  holds the lists that the other members pass.
\<close>

definition add_tensor :: "tensor \<Rightarrow> tensor \<Rightarrow> tensor" where
  "add_tensor t u = t\<lparr>entries := map2 (+) (entries t) (entries u)\<rparr>"

definition scale_tensor :: "real \<Rightarrow> tensor \<Rightarrow> tensor" where
  "scale_tensor c t = t\<lparr>entries := map (\<lambda>x. c * x) (entries t)\<rparr>"

definition xm_all_reduce :: "real \<Rightarrow> tensor list \<Rightarrow> tensor list list \<Rightarrow> tensor list" where
  "xm_all_reduce c own peers = map (scale_tensor c) (foldl (map2 add_tensor) own peers)"

text \<open>
  The collective works in place on the tensors of \<^verbatim>\<open>gradients\<close>, which are the
  \<^verbatim>\<open>grad\<close> objects of the parameters that require a gradient, in order: the reduced
  tensors are what these parameters hold afterwards.
\<close>

fun store_gradients :: "parameter list \<Rightarrow> tensor list \<Rightarrow> parameter list" where
  "store_gradients [] gs = []"
| "store_gradients (p # ps) gs =
     (if requires_grad p then
        (case gs of
           [] \<Rightarrow> p # ps
         | g # gs' \<Rightarrow> p\<lparr>grad := Some g\<rparr> # store_gradients ps gs')
      else p # store_gradients ps gs)"

text \<open>
  Lines 167--187, \<^verbatim>\<open>all_reduce_grads\<close>. \<open>xla_importable\<close> says whether
  \<^verbatim>\<open>import torch_xla.core.xla_model\<close> succeeds. The result is \<^verbatim>\<open>self\<close> afterwards,
  the collective calls issued, and the exception if one was raised.
\<close>

definition all_reduce_grads ::
  "bool \<Rightarrow> tensor list list \<Rightarrow> tpu_ddp \<Rightarrow> tpu_ddp \<times> collective_call list \<times> (error + unit)" where
  "all_reduce_grads xla_importable peers self =
     (case collect_gradients (parameters self) [] of
        (ps', Inl e) \<Rightarrow> (self\<lparr>parameters := ps'\<rparr>, [], Inl e)
      | (ps', Inr gradients) \<Rightarrow>
          if \<not> xla_importable then
            (self\<lparr>parameters := ps'\<rparr>, [], Inl (ImportError ''No module named torch_xla''))
          else if world_size self = 0 then
            (self\<lparr>parameters := ps'\<rparr>, [], Inl ZeroDivisionError)
          else
            (let c = 1 / real (world_size self);
                 call = \<lparr>reduce_type = ''sum'', inputs = gradients, scale = c,
                         groups = snd (process_group self)\<rparr>
             in (self\<lparr>parameters := store_gradients ps' (xm_all_reduce c gradients peers)\<rparr>,
                 [call], Inr ())))"

subsection \<open>The gradient norm under model parallelism\<close>

text \<open>
  Modelled from the spec: \<^verbatim>\<open>distributed_utils.all_reduce\<close> is not among the sources.
  The spec gives it sum semantics: every member of the group receives the sum of the
  values that the members contribute. \<open>others\<close> holds what the other members
  contribute.
\<close>

definition all_reduce :: "real \<Rightarrow> real list \<Rightarrow> real" where
  "all_reduce x others = x + sum_list others"

text \<open>The state of a trainer as far as clipping is concerned: the gradients it holds.\<close>

record trainer =
  gradients :: "real list list"

text \<open>
  Lines 32--38, the closure \<^verbatim>\<open>_aggregate_model_parallel_grad_norm\<close>. \<open>peer_norms\<close>
  are the local norms of the other members of the model-parallel group, each of which
  runs the same closure and so contributes the square of its norm. The closure has no
  access to the trainer: its state is passed through as it is.
\<close>

definition aggregate_model_parallel_grad_norm ::
  "trainer \<Rightarrow> real list \<Rightarrow> real \<Rightarrow> trainer \<times> real" where
  "aggregate_model_parallel_grad_norm self peer_norms total_norm =
     (let total_norm = total_norm ^ 2;
          total_norm = all_reduce total_norm (map (\<lambda>m. m ^ 2) peer_norms);
          total_norm = total_norm powr 0.5
      in (self, total_norm))"

subsection \<open>Notions used in the statements\<close>

text \<open>
  The gradient a parameter contributes: its own, or zeros of its shape when it has
  none. A parameter after the loop has visited it. A parameter whose gradient
  requires a gradient itself.
\<close>

definition gradient_or_zeros :: "parameter \<Rightarrow> tensor" where
  "gradient_or_zeros p = (case grad p of None \<Rightarrow> zeros_like p | Some g \<Rightarrow> g)"

definition visited :: "parameter \<Rightarrow> parameter" where
  "visited p = (if requires_grad p then p\<lparr>grad := Some (gradient_or_zeros p)\<rparr> else p)"

definition double_backward :: "parameter \<Rightarrow> bool" where
  "double_backward p =
     (requires_grad p \<and> (case grad p of None \<Rightarrow> False | Some g \<Rightarrow> requires_grad g))"

subsection \<open>Concrete inputs\<close>

text \<open>The inputs at which the theorems below are evaluated.\<close>

definition example_args :: args where
  "example_args =
     \<lparr>tpu = False, distributed_wrapper = ''DDP'', ddp_backend = ''c10d'', device_id = 0,
      broadcast_buffers = False, bucket_cap_mb = 25, find_unused_parameters = False,
      nprocs_per_node = 8, slowmo_momentum = None, slowmo_algorithm = ''LocalSGD'',
      localsgd_frequency = 3, distributed_world_size = 24\<rparr>"

definition example_env :: environment where
  "example_env =
     \<lparr>GOSSIP_DISABLED = False,
      ddp_argspec = [''self'', ''module'', ''device_ids'', ''output_device'',
                     ''broadcast_buffers'', ''process_group'', ''bucket_cap_mb'',
                     ''find_unused_parameters'', ''check_reduction''],
      COMM_HOOK_TYPE = None\<rparr>"

definition example_model :: pyobj where
  "example_model =
     Obj ''TransformerModel'' 1
       [(''max_positions'', Obj ''int'' 1024 [] [])]
       [(''encoder'', Obj ''TransformerEncoder'' 2 [] [])]"

definition example_wrapper :: pyobj where
  "example_wrapper =
     Obj ''_DistributedFairseqModel'' 0
       [(''world_size'', Obj ''int'' 8 [] [])]
       [(''module'', example_model)]"

definition frozen_parameter :: parameter where
  "frozen_parameter =
     \<lparr>shape = [2], entries = [7, 8], requires_grad = False, grad = None\<rparr>"

definition fresh_parameter :: parameter where
  "fresh_parameter =
     \<lparr>shape = [3], entries = [1, 2, 3], requires_grad = True, grad = None\<rparr>"

definition trained_parameter :: parameter where
  "trained_parameter =
     \<lparr>shape = [2], entries = [4, 5], requires_grad = True,
      grad = Some \<lparr>shape = [2], entries = [3 / 2, - 2], requires_grad = False\<rparr>\<rparr>"

definition double_backward_parameter :: parameter where
  "double_backward_parameter =
     \<lparr>shape = [1], entries = [9], requires_grad = True,
      grad = Some \<lparr>shape = [1], entries = [1], requires_grad = True\<rparr>\<rparr>"

definition example_tpu :: tpu_ddp where
  "example_tpu =
     \<lparr>parameters = [fresh_parameter, frozen_parameter, trained_parameter],
      process_group = (''tpu'', [[0, 1]]), world_size = 2\<rparr>"

definition failing_tpu :: tpu_ddp where
  "failing_tpu =
     \<lparr>parameters = [fresh_parameter, frozen_parameter, double_backward_parameter,
                    fresh_parameter],
      process_group = (''tpu'', [[0, 1]]), world_size = 2\<rparr>"

section \<open>Properties\<close>

subsection \<open>The default momentum of the gossip wrapper\<close>

lemma assign_slowmo_momentum_unset:
  "slowmo_momentum a = None \<Longrightarrow>
   slowmo_momentum (assign_slowmo_momentum a) =
     Some (if distributed_world_size a \<le> 16 then 0.0
           else if distributed_world_size a \<le> 32 then 0.2
           else if distributed_world_size a \<le> 64 then 0.5 else 0.6)"
  by (simp add: assign_slowmo_momentum_def)

text \<open>
  Claim C2. When the chain reaches the gossip branch (no TPU, wrapper \<^verbatim>\<open>SlowMo\<close>, the
  gossip library imported) and \<^verbatim>\<open>args.slowmo_momentum\<close> is unset, the momentum that
  is assigned to \<^verbatim>\<open>args\<close> and passed to the wrapper is a step function of
  \<^verbatim>\<open>distributed_world_size\<close>: 0.0 up to 16, 0.2 from 17 to 32, 0.5 from 33 to 64 and
  0.6 above, the bounds 16, 32 and 64 belonging to the lower step.
\<close>

theorem slowmo_momentum_ladder:
  assumes "\<not> tpu a" and "distributed_wrapper a = ''SlowMo''"
    and "\<not> GOSSIP_DISABLED env" and "slowmo_momentum a = None"
  shows "\<exists>a' kw. select_ddp_class env a = (a', Inr (GossipDataParallel, kw))
           \<and> slowmo_momentum a' =
               Some (if distributed_world_size a \<le> 16 then 0.0
                     else if distributed_world_size a \<le> 32 then 0.2
                     else if distributed_world_size a \<le> 64 then 0.5 else 0.6)
           \<and> map_of kw ''slowmo_momentum'' = Some (FloatOrNoneV (slowmo_momentum a'))"
  using assms
  by (simp add: select_ddp_class_def Let_def assign_slowmo_momentum_unset)

theorem slowmo_momentum_ladder_witness:
  "\<not> tpu (example_args\<lparr>distributed_wrapper := ''SlowMo''\<rparr>)
   \<and> distributed_wrapper (example_args\<lparr>distributed_wrapper := ''SlowMo''\<rparr>) = ''SlowMo''
   \<and> \<not> GOSSIP_DISABLED example_env
   \<and> slowmo_momentum (example_args\<lparr>distributed_wrapper := ''SlowMo''\<rparr>) = None
   \<and> distributed_world_size (example_args\<lparr>distributed_wrapper := ''SlowMo''\<rparr>) = 24
   \<and> slowmo_momentum (fst (select_ddp_class example_env
         (example_args\<lparr>distributed_wrapper := ''SlowMo''\<rparr>))) = Some 0.2"
  using slowmo_momentum_ladder [of "example_args\<lparr>distributed_wrapper := ''SlowMo''\<rparr>" example_env]
  by (auto simp add: example_args_def example_env_def)

text \<open>The ladder at the values 16, 32 and 64 and on both sides of them.\<close>

lemma slowmo_momentum_ladder_values:
  "map (\<lambda>n. slowmo_momentum (assign_slowmo_momentum (example_args\<lparr>distributed_world_size := n\<rparr>)))
       [8, 16, 17, 24, 32, 33, 50, 64, 65, 100]
   = map Some [0.0, 0.0, 0.2, 0.2, 0.2, 0.5, 0.5, 0.5, 0.6, 0.6]"
  by (simp add: assign_slowmo_momentum_def example_args_def)

subsection \<open>The loop over the parameters\<close>

lemma visited_frozen: "\<not> requires_grad p \<Longrightarrow> visited p = p"
  by (simp add: visited_def)

lemma visited_double_backward: "double_backward p \<Longrightarrow> visited p = p"
  by (auto simp add: visited_def double_backward_def gradient_or_zeros_def split: option.splits)

lemma requires_grad_visited: "requires_grad (visited p) = requires_grad p"
  by (simp add: visited_def)

lemma not_double_backward_gradient:
  "requires_grad p \<Longrightarrow> \<not> double_backward p \<Longrightarrow> \<not> requires_grad (gradient_or_zeros p)"
  by (auto simp add: double_backward_def gradient_or_zeros_def zeros_like_def split: option.splits)

lemma double_backward_gradient:
  "double_backward p \<Longrightarrow> requires_grad (gradient_or_zeros p)"
  by (auto simp add: double_backward_def gradient_or_zeros_def split: option.splits)

lemma collect_gradients_step_frozen:
  "\<not> requires_grad p \<Longrightarrow>
   collect_gradients (p # ps) acc =
     (p # fst (collect_gradients ps acc), snd (collect_gradients ps acc))"
  by (simp add: split_beta)

lemma collect_gradients_step_ok:
  "requires_grad p \<Longrightarrow> \<not> double_backward p \<Longrightarrow>
   collect_gradients (p # ps) acc =
     (visited p # fst (collect_gradients ps (acc @ [gradient_or_zeros p])),
      snd (collect_gradients ps (acc @ [gradient_or_zeros p])))"
  using not_double_backward_gradient [of p]
  by (simp add: split_beta Let_def visited_def gradient_or_zeros_def)

lemma collect_gradients_step_raise:
  "double_backward p \<Longrightarrow>
   collect_gradients (p # ps) acc = (p # ps, Inl (RuntimeError requires_grad_message))"
  using double_backward_gradient [of p] visited_double_backward [of p]
  by (simp add: Let_def visited_def gradient_or_zeros_def double_backward_def)

lemma collect_gradients_success:
  "\<forall>p\<in>set ps. \<not> double_backward p \<Longrightarrow>
   collect_gradients ps acc =
     (map visited ps, Inr (acc @ map gradient_or_zeros (filter requires_grad ps)))"
proof (induction ps arbitrary: acc)
  case Nil
  then show ?case by simp
next
  case (Cons p ps)
  show ?case
  proof (cases "requires_grad p")
    case True
    with Cons show ?thesis
      by (simp add: collect_gradients_step_ok del: collect_gradients.simps)
  next
    case False
    with Cons show ?thesis
      by (simp add: collect_gradients_step_frozen visited_frozen del: collect_gradients.simps)
  qed
qed

lemma collect_gradients_failure:
  "\<forall>p\<in>set pre. \<not> double_backward p \<Longrightarrow> double_backward q \<Longrightarrow>
   collect_gradients (pre @ q # post) acc =
     (map visited pre @ q # post, Inl (RuntimeError requires_grad_message))"
proof (induction pre arbitrary: acc)
  case Nil
  then show ?case by (simp add: collect_gradients_step_raise del: collect_gradients.simps)
next
  case (Cons p pre)
  show ?case
  proof (cases "requires_grad p")
    case True
    with Cons show ?thesis
      by (simp add: collect_gradients_step_ok del: collect_gradients.simps)
  next
    case False
    with Cons show ?thesis
      by (simp add: collect_gradients_step_frozen visited_frozen del: collect_gradients.simps)
  qed
qed

lemma first_double_backward:
  "\<exists>p\<in>set ps. double_backward p \<Longrightarrow>
   \<exists>pre q post. ps = pre @ q # post \<and> (\<forall>p\<in>set pre. \<not> double_backward p) \<and> double_backward q"
  using split_list_first_prop [of ps double_backward] by blast

lemma store_gradients_own:
  "store_gradients (map visited ps) (map gradient_or_zeros (filter requires_grad ps)) = map visited ps"
  by (induction ps) (simp_all add: visited_def)

subsection \<open>The choice of the wrapper class\<close>

text \<open>
  Claim C7, as amended. The chain chooses the TPU wrapper whenever \<^verbatim>\<open>args.tpu\<close> is
  set, torch's \<^verbatim>\<open>DistributedDataParallel\<close> for \<^verbatim>\<open>DDP\<close> with \<^verbatim>\<open>c10d\<close>, the legacy
  wrapper for \<^verbatim>\<open>DDP\<close> with \<^verbatim>\<open>no_c10d\<close>, and the gossip wrapper for \<^verbatim>\<open>SlowMo\<close>
  provided the gossip library was imported; for \<^verbatim>\<open>SlowMo\<close> without the library it
  raises \<^verbatim>\<open>ImportError\<close>, and for every other combination \<^verbatim>\<open>ValueError\<close>. No
  branch returns a class other than the one its condition names.
\<close>

theorem select_ddp_class_matches:
  "(tpu a \<longrightarrow> (\<exists>kw. snd (select_ddp_class env a) = Inr (TPUDistributedDataParallel, kw)))
   \<and> (\<not> tpu a \<and> distributed_wrapper a = ''DDP'' \<and> ddp_backend a = ''c10d'' \<longrightarrow>
        (\<exists>kw. snd (select_ddp_class env a) = Inr (DistributedDataParallel, kw)))
   \<and> (\<not> tpu a \<and> distributed_wrapper a = ''DDP'' \<and> ddp_backend a = ''no_c10d'' \<longrightarrow>
        (\<exists>kw. snd (select_ddp_class env a) = Inr (LegacyDistributedDataParallel, kw)))
   \<and> (\<not> tpu a \<and> distributed_wrapper a = ''SlowMo'' \<and> \<not> GOSSIP_DISABLED env \<longrightarrow>
        (\<exists>kw. snd (select_ddp_class env a) = Inr (GossipDataParallel, kw)))
   \<and> (\<not> tpu a \<and> distributed_wrapper a = ''SlowMo'' \<and> GOSSIP_DISABLED env \<longrightarrow>
        snd (select_ddp_class env a) = Inl (ImportError gossip_import_message))
   \<and> (\<not> tpu a \<and> distributed_wrapper a \<noteq> ''SlowMo''
        \<and> \<not> (distributed_wrapper a = ''DDP'' \<and> ddp_backend a \<in> {''c10d'', ''no_c10d''}) \<longrightarrow>
        select_ddp_class env a = (a, Inl (ValueError (''Unknown --ddp-backend: '' @ ddp_backend a))))"
  by (auto simp add: select_ddp_class_def Let_def)

theorem select_ddp_class_matches_witness:
  "(\<exists>kw. snd (select_ddp_class example_env (example_args\<lparr>tpu := True\<rparr>))
            = Inr (TPUDistributedDataParallel, kw))
   \<and> (\<exists>kw. snd (select_ddp_class example_env example_args) = Inr (DistributedDataParallel, kw))
   \<and> (\<exists>kw. snd (select_ddp_class example_env (example_args\<lparr>ddp_backend := ''no_c10d''\<rparr>))
            = Inr (LegacyDistributedDataParallel, kw))
   \<and> (\<exists>kw. snd (select_ddp_class example_env (example_args\<lparr>distributed_wrapper := ''SlowMo''\<rparr>))
            = Inr (GossipDataParallel, kw))
   \<and> snd (select_ddp_class (example_env\<lparr>GOSSIP_DISABLED := True\<rparr>)
            (example_args\<lparr>distributed_wrapper := ''SlowMo''\<rparr>))
       = Inl (ImportError gossip_import_message)
   \<and> snd (select_ddp_class example_env (example_args\<lparr>ddp_backend := ''nccl''\<rparr>))
       = Inl (ValueError ''Unknown --ddp-backend: nccl'')"
  using
    select_ddp_class_matches [of "example_args\<lparr>tpu := True\<rparr>" example_env]
    select_ddp_class_matches [of example_args example_env]
    select_ddp_class_matches [of "example_args\<lparr>ddp_backend := ''no_c10d''\<rparr>" example_env]
    select_ddp_class_matches [of "example_args\<lparr>distributed_wrapper := ''SlowMo''\<rparr>" example_env]
    select_ddp_class_matches [of "example_args\<lparr>distributed_wrapper := ''SlowMo''\<rparr>"
      "example_env\<lparr>GOSSIP_DISABLED := True\<rparr>"]
    select_ddp_class_matches [of "example_args\<lparr>ddp_backend := ''nccl''\<rparr>" example_env]
  by (simp add: example_args_def example_env_def)

text \<open>
  Claim C7 as stated fails for \<^verbatim>\<open>SlowMo\<close> when the gossip library is missing: the
  pair is a supported one, and no wrapper is constructed.
\<close>

theorem select_gossip_counterexample:
  "snd (select_ddp_class (example_env\<lparr>GOSSIP_DISABLED := True\<rparr>)
          (example_args\<lparr>distributed_wrapper := ''SlowMo''\<rparr>))
     = Inl (ImportError gossip_import_message)"
  by (simp add: select_ddp_class_def example_args_def)

subsection \<open>The missing gossip library\<close>

text \<open>
  Claim C8. When the gossip wrapper is requested (no TPU, wrapper \<^verbatim>\<open>SlowMo\<close>) and the
  gossip library could not be imported, \<^verbatim>\<open>DistributedFairseqModel\<close> raises
  \<^verbatim>\<open>ImportError\<close> with a message that says where to install the library from; it
  has then created no object at all and has left \<^verbatim>\<open>args\<close> as it was.
\<close>

theorem gossip_missing_raises_ImportError:
  assumes "\<not> tpu a" and "distributed_wrapper a = ''SlowMo''" and "GOSSIP_DISABLED env"
  shows "DistributedFairseqModel env a =
           (a, [], Inl (ImportError (''Cannot find gossip library. Please install from: '' @
                                     ''github.com/facebookresearch/stochastic_gradient_push'')))"
  using assms
  by (simp add: DistributedFairseqModel_def select_ddp_class_def gossip_import_message_def)

theorem gossip_missing_raises_ImportError_witness:
  "\<not> tpu (example_args\<lparr>distributed_wrapper := ''SlowMo''\<rparr>)
   \<and> distributed_wrapper (example_args\<lparr>distributed_wrapper := ''SlowMo''\<rparr>) = ''SlowMo''
   \<and> GOSSIP_DISABLED (example_env\<lparr>GOSSIP_DISABLED := True\<rparr>)
   \<and> snd (DistributedFairseqModel (example_env\<lparr>GOSSIP_DISABLED := True\<rparr>)
            (example_args\<lparr>distributed_wrapper := ''SlowMo''\<rparr>))
       = ([], Inl (ImportError (''Cannot find gossip library. Please install from: '' @
                                ''github.com/facebookresearch/stochastic_gradient_push'')))"
  using gossip_missing_raises_ImportError
    [of "example_args\<lparr>distributed_wrapper := ''SlowMo''\<rparr>"
        "example_env\<lparr>GOSSIP_DISABLED := True\<rparr>"]
  by (simp add: example_args_def)

subsection \<open>The effect on the configuration\<close>

text \<open>
  Claim C5, as amended. The chain leaves \<^verbatim>\<open>args\<close> as it was, except on the gossip
  branch with \<^verbatim>\<open>slowmo_momentum\<close> unset: there it stores the default momentum in
  \<^verbatim>\<open>args.slowmo_momentum\<close> and changes no other field.
\<close>

theorem select_changes_only_unset_momentum:
  "fst (select_ddp_class env a) =
     (if \<not> tpu a \<and> distributed_wrapper a = ''SlowMo'' \<and> \<not> GOSSIP_DISABLED env
         \<and> slowmo_momentum a = None
      then a\<lparr>slowmo_momentum :=
               Some (if distributed_world_size a \<le> 16 then 0.0
                     else if distributed_world_size a \<le> 32 then 0.2
                     else if distributed_world_size a \<le> 64 then 0.5 else 0.6)\<rparr>
      else a)"
  by (simp add: select_ddp_class_def assign_slowmo_momentum_def Let_def)

theorem select_changes_only_unset_momentum_witness:
  "fst (select_ddp_class example_env example_args) = example_args
   \<and> fst (select_ddp_class example_env (example_args\<lparr>distributed_wrapper := ''SlowMo''\<rparr>))
       = example_args\<lparr>distributed_wrapper := ''SlowMo'', slowmo_momentum := Some 0.2\<rparr>"
  using select_changes_only_unset_momentum [of example_env example_args]
    select_changes_only_unset_momentum
      [of example_env "example_args\<lparr>distributed_wrapper := ''SlowMo''\<rparr>"]
  by (simp add: example_args_def example_env_def)

text \<open>
  Claim C5 as stated fails: with \<^verbatim>\<open>SlowMo\<close>, 24 workers and no momentum given, the
  momentum field is \<open>None\<close> before the call and 0.2 after it.
\<close>

theorem select_mutates_momentum_counterexample:
  "fst (select_ddp_class example_env (example_args\<lparr>distributed_wrapper := ''SlowMo''\<rparr>))
     \<noteq> example_args\<lparr>distributed_wrapper := ''SlowMo''\<rparr>
   \<and> slowmo_momentum (example_args\<lparr>distributed_wrapper := ''SlowMo''\<rparr>) = None
   \<and> slowmo_momentum
        (fst (select_ddp_class example_env (example_args\<lparr>distributed_wrapper := ''SlowMo''\<rparr>)))
       = Some 0.2"
  by (simp add: select_ddp_class_def example_env_def example_args_def
      assign_slowmo_momentum_def Let_def)

subsection \<open>The communication hook\<close>

text \<open>
  The four branches that register on \<^verbatim>\<open>ddp_model\<close> add exactly one hook to a wrapper
  built on torch's \<^verbatim>\<open>DistributedDataParallel\<close>; with the variable unset nothing is
  registered; any other value, the empty string included, raises \<^verbatim>\<open>ValueError\<close>.
\<close>

lemma register_hook_by_type_fp16:
  "register_hook_by_type (Some ''FP16_COMPRESS'') m = Inl (NameError ''ddp'')"
  by (simp add: register_hook_by_type_def)

lemma register_hook_by_type_siblings:
  assumes "wrapper_class m = DistributedDataParallel"
  shows "register_hook_by_type (Some ''POWER_SGD'') m
           = Inr (m\<lparr>comm_hooks := comm_hooks m @ [(PowerSGDState 1 2, powerSGD_hook)]\<rparr>)"
    and "register_hook_by_type (Some ''FP16_POWER_SGD'') m
           = Inr (m\<lparr>comm_hooks := comm_hooks m @
                   [(PowerSGDState 1 2, fp16_compress_wrapper powerSGD_hook)]\<rparr>)"
    and "register_hook_by_type (Some ''BATCHED_POWER_SGD'') m
           = Inr (m\<lparr>comm_hooks := comm_hooks m @ [(PowerSGDState 1 2, batched_powerSGD_hook)]\<rparr>)"
    and "register_hook_by_type (Some ''FP16_BATCHED_POWER_SGD'') m
           = Inr (m\<lparr>comm_hooks := comm_hooks m @
                   [(PowerSGDState 1 2, fp16_compress_wrapper batched_powerSGD_hook)]\<rparr>)"
  using assms by (simp_all add: register_hook_by_type_def register_comm_hook_def)

lemma register_hook_by_type_unset:
  "register_hook_by_type None m = Inr m"
  by (simp add: register_hook_by_type_def)

lemma register_hook_by_type_unknown:
  assumes "t \<notin> {''FP16_COMPRESS'', ''POWER_SGD'', ''FP16_POWER_SGD'', ''BATCHED_POWER_SGD'',
                  ''FP16_BATCHED_POWER_SGD''}"
  shows "register_hook_by_type (Some t) m
           = Inl (ValueError ''Unknown value of the environment variable COMM_HOOK_TYPE.'')"
  using assms by (simp add: register_hook_by_type_def)

text \<open>
  Claim C3 holds for four of the five recognised values only. With
  \<^verbatim>\<open>COMM_HOOK_TYPE=FP16_COMPRESS\<close> the function raises \<^verbatim>\<open>NameError\<close> for the
  unbound name \<^verbatim>\<open>ddp\<close>, after the wrapper has been built, and registers no hook.
\<close>

theorem fp16_compress_raises_NameError:
  "DistributedFairseqModel (example_env\<lparr>COMM_HOOK_TYPE := Some ''FP16_COMPRESS''\<rparr>) example_args
     = (example_args, [WrapperObject DistributedDataParallel, PowerSGDStateObject],
        Inl (NameError ''ddp''))"
  by (simp add: DistributedFairseqModel_def select_ddp_class_def example_env_def
      example_args_def register_hook_by_type_def)

subsection \<open>Attribute lookup\<close>

lemma wrapper_lookup_own:
  "map_of (dict w) name = Some v \<Longrightarrow> wrapper_lookup w name = Inr v"
  by (simp add: wrapper_lookup_def)

lemma wrapper_lookup_forward:
  "map_of (dict w) name = None \<Longrightarrow> map_of (registered w) ''module'' = Some m \<Longrightarrow>
   wrapper_lookup w name = (if hasattr m name then getattr m name else nn_Module_getattr w name)"
  by (simp add: wrapper_lookup_def DistributedFairseqModel_getattr_def nn_Module_getattr_def)

text \<open>
  Claim C4, as amended. A name that ordinary lookup finds on the wrapper resolves
  there, whatever is registered on the wrapper and whatever the wrapped model holds. Any
  other name is looked up on the wrapped model first, and the model's value is
  returned when it has one. A name the model lacks falls back to the lookup of the
  wrapper's base class among what is registered on the wrapper; when it is not there
  either, the failure raised is the \<^verbatim>\<open>AttributeError\<close> of that lookup, which names
  the class of the wrapper.
\<close>

theorem wrapper_lookup_chain:
  "(map_of d name = Some v \<longrightarrow> wrapper_lookup (Obj c i d r) name = Inr v)
   \<and> (map_of (dict w) name = None \<and> map_of (registered w) ''module'' = Some m
        \<and> getattr m name = Inr v \<longrightarrow> wrapper_lookup w name = Inr v)
   \<and> (map_of (dict w) name = None \<and> map_of (registered w) ''module'' = Some m
        \<and> getattr m name = Inl e \<longrightarrow> wrapper_lookup w name = nn_Module_getattr w name)
   \<and> (map_of (dict w) name = None \<and> map_of (registered w) ''module'' = Some m
        \<and> getattr m name = Inl e \<and> map_of (registered w) name = None \<longrightarrow>
        wrapper_lookup w name = Inl (AttributeError (type_name w) name))"
  by (auto simp add: wrapper_lookup_own wrapper_lookup_forward hasattr_def nn_Module_getattr_def)

theorem wrapper_lookup_chain_witness:
  "wrapper_lookup example_wrapper ''world_size'' = Inr (Obj ''int'' 8 [] [])
   \<and> wrapper_lookup example_wrapper ''max_positions'' = Inr (Obj ''int'' 1024 [] [])
   \<and> wrapper_lookup example_wrapper ''module'' = Inr example_model
   \<and> wrapper_lookup example_wrapper ''decoder'' =
        Inl (AttributeError ''_DistributedFairseqModel'' ''decoder'')"
  using
    wrapper_lookup_chain [where d = "dict example_wrapper" and name = "''world_size''"
      and v = "Obj ''int'' 8 [] []" and c = "''_DistributedFairseqModel''" and i = 0
      and r = "registered example_wrapper"]
    wrapper_lookup_chain [where w = example_wrapper and name = "''max_positions''"
      and m = example_model and v = "Obj ''int'' 1024 [] []"]
    wrapper_lookup_chain [where w = example_wrapper and name = "''module''"
      and m = example_model and e = "AttributeError ''TransformerModel'' ''module''"]
    wrapper_lookup_chain [where w = example_wrapper and name = "''decoder''"
      and m = example_model and e = "AttributeError ''TransformerModel'' ''decoder''"]
  by (simp add: example_wrapper_def example_model_def getattr_def nn_Module_getattr_def)

text \<open>
  Claim C4 as stated fails in its last part: for a name absent from both, direct
  access on the model reports the class of the model, access through the wrapper
  reports the class of the wrapper.
\<close>

theorem wrapper_lookup_failure_counterexample:
  "wrapper_lookup example_wrapper ''decoder''
     = Inl (AttributeError ''_DistributedFairseqModel'' ''decoder'')
   \<and> getattr example_model ''decoder'' = Inl (AttributeError ''TransformerModel'' ''decoder'')
   \<and> wrapper_lookup example_wrapper ''decoder'' \<noteq> getattr example_model ''decoder''"
  by (simp add: example_wrapper_def example_model_def wrapper_lookup_def
      DistributedFairseqModel_getattr_def hasattr_def getattr_def nn_Module_getattr_def)

text \<open>
  A name registered on the wrapper (a parameter, buffer or submodule, as \<^verbatim>\<open>module\<close>
  itself is) is not found by ordinary lookup, so the model is asked first and wins.
\<close>

lemma registered_name_is_looked_up_on_the_model_first:
  "wrapper_lookup
     (Obj ''_DistributedFairseqModel'' 0 []
        [(''module'', example_model), (''encoder'', Obj ''Buffer'' 7 [] [])]) ''encoder''
   = Inr (Obj ''TransformerEncoder'' 2 [] [])"
  by (simp add: example_model_def wrapper_lookup_def
      DistributedFairseqModel_getattr_def hasattr_def getattr_def nn_Module_getattr_def)

subsection \<open>The gradient norm under model parallelism\<close>

lemma sum_list_squares_nonneg: "0 \<le> sum_list (map (\<lambda>m::real. m ^ 2) xs)"
  by (induction xs) simp_all

lemma sum_list_replicate_real: "sum_list (replicate k (x::real)) = real k * x"
  by (induction k) (simp_all add: algebra_simps)

lemma aggregate_eq:
  "aggregate_model_parallel_grad_norm s peers m =
     (s, sqrt (sum_list (map (\<lambda>x. x ^ 2) (m # peers))))"
proof -
  have "0 \<le> m ^ 2 + sum_list (map (\<lambda>x. x ^ 2) peers)"
    using sum_list_squares_nonneg [of peers] by simp
  then have "(m ^ 2 + sum_list (map (\<lambda>x. x ^ 2) peers)) powr (1 / 2)
             = sqrt (m ^ 2 + sum_list (map (\<lambda>x. x ^ 2) peers))"
    by (rule powr_half_sqrt)
  then show ?thesis
    by (simp add: aggregate_model_parallel_grad_norm_def all_reduce_def)
qed

lemma aggregate_single_abs:
  "aggregate_model_parallel_grad_norm s [] m = (s, \<bar>m\<bar>)"
  by (simp add: aggregate_eq)

text \<open>
  Claim C1. For local norms \<open>m\<close> of this worker and \<open>peers\<close> of the other members of
  the model-parallel group, the closure returns the square root of the sum of the
  squares, and the trainer with its gradients as it was. A norm \<open>n\<close> is not negative;
  in a group of size 1 the closure returns it unchanged, and in a group of \<open>N\<close> members
  that all supply \<open>n\<close> it returns \<open>n * sqrt N\<close>.
\<close>

theorem aggregate_model_parallel_grad_norm_correct:
  assumes "0 \<le> n" and "0 < N"
  shows "aggregate_model_parallel_grad_norm s peers m =
           (s, sqrt (sum_list (map (\<lambda>x. x ^ 2) (m # peers))))
       \<and> aggregate_model_parallel_grad_norm s [] n = (s, n)
       \<and> aggregate_model_parallel_grad_norm s (replicate (N - 1) n) n = (s, n * sqrt (real N))"
proof -
  have one: "aggregate_model_parallel_grad_norm s [] n = (s, n)"
    using assms(1) by (simp add: aggregate_eq)
  have "sum_list (map (\<lambda>x. x ^ 2) (n # replicate (N - 1) n)) = real N * n ^ 2"
  proof -
    have "n # replicate (N - 1) n = replicate N n"
      using assms(2) by (cases N) simp_all
    then show ?thesis
      by (simp add: sum_list_replicate_real)
  qed
  then have "sqrt (sum_list (map (\<lambda>x. x ^ 2) (n # replicate (N - 1) n))) = n * sqrt (real N)"
    using assms(1) by (simp add: real_sqrt_mult)
  then have many: "aggregate_model_parallel_grad_norm s (replicate (N - 1) n) n = (s, n * sqrt (real N))"
    by (simp only: aggregate_eq)
  show ?thesis
    using aggregate_eq one many by blast
qed

theorem aggregate_model_parallel_grad_norm_witness:
  "(0::real) \<le> 3 \<and> (0::nat) < 4
   \<and> aggregate_model_parallel_grad_norm \<lparr>gradients = [[1, 2]]\<rparr> [] 3 = (\<lparr>gradients = [[1, 2]]\<rparr>, 3)
   \<and> aggregate_model_parallel_grad_norm \<lparr>gradients = [[1, 2]]\<rparr> [3, 3, 3] 3
       = (\<lparr>gradients = [[1, 2]]\<rparr>, 6)"
  using aggregate_model_parallel_grad_norm_correct [of 3 4 "\<lparr>gradients = [[1, 2]]\<rparr>" "[]" 3]
  by (simp add: numeral_eq_Suc)

subsection \<open>The collective on identical contributions\<close>

lemma scale_tensor_one: "scale_tensor 1 t = t"
  by (simp add: scale_tensor_def)

lemma scale_tensor_scale: "scale_tensor c (scale_tensor d t) = scale_tensor (c * d) t"
  by (simp add: scale_tensor_def)

lemma map2_add_scaled:
  "map2 (+) (map (\<lambda>x. c * x) es) es = map (\<lambda>x. (c + 1) * x) (es :: real list)"
  by (induction es) (simp_all add: algebra_simps)

lemma add_scaled_tensor: "add_tensor (scale_tensor c t) t = scale_tensor (c + 1) t"
  by (simp add: add_tensor_def scale_tensor_def map2_add_scaled)

lemma map2_add_scaled_tensors:
  "map2 add_tensor (map (scale_tensor c) gs) gs = map (scale_tensor (c + 1)) gs"
  by (induction gs) (simp_all add: add_scaled_tensor)

lemma foldl_add_replicate:
  "foldl (map2 add_tensor) (map (scale_tensor c) gs) (replicate k gs)
     = map (scale_tensor (c + real k)) gs"
proof (induction k arbitrary: c)
  case 0
  then show ?case by simp
next
  case (Suc k)
  have "c + 1 + real k = c + real (Suc k)" by simp
  with Suc [of "c + 1"] show ?case
    by (simp add: map2_add_scaled_tensors)
qed

lemma xm_all_reduce_identical:
  assumes "0 < W"
  shows "xm_all_reduce (1 / real W) gs (replicate (W - 1) gs) = gs"
proof -
  have "foldl (map2 add_tensor) (map (scale_tensor 1) gs) (replicate (W - 1) gs)
          = map (scale_tensor (1 + real (W - 1))) gs"
    by (rule foldl_add_replicate)
  moreover have "map (scale_tensor 1) gs = gs"
    by (simp add: scale_tensor_one cong: map_cong)
  moreover have "1 + real (W - 1) = real W"
    using assms by (simp add: of_nat_diff)
  ultimately have "foldl (map2 add_tensor) gs (replicate (W - 1) gs) = map (scale_tensor (real W)) gs"
    by simp
  then have "xm_all_reduce (1 / real W) gs (replicate (W - 1) gs)
               = map (scale_tensor (1 / real W * real W)) gs"
    by (simp add: xm_all_reduce_def scale_tensor_scale comp_def)
  also have "1 / real W * real W = 1"
    using assms by simp
  finally show ?thesis
    by (simp add: scale_tensor_one cong: map_cong)
qed

subsection \<open>The reduction of the gradients on a TPU\<close>

lemma all_reduce_grads_success:
  assumes "\<forall>p\<in>set (parameters self). \<not> double_backward p" and "0 < world_size self"
  shows "all_reduce_grads True peers self =
           (self\<lparr>parameters :=
                   store_gradients (map visited (parameters self))
                     (xm_all_reduce (1 / real (world_size self))
                        (map gradient_or_zeros (filter requires_grad (parameters self))) peers)\<rparr>,
            [\<lparr>reduce_type = ''sum'',
              inputs = map gradient_or_zeros (filter requires_grad (parameters self)),
              scale = 1 / real (world_size self),
              groups = snd (process_group self)\<rparr>],
            Inr ())"
  using assms
  by (simp add: all_reduce_grads_def collect_gradients_success Let_def)

lemma all_reduce_grads_failure:
  assumes "parameters self = pre @ q # post"
    and "\<forall>p\<in>set pre. \<not> double_backward p" and "double_backward q"
  shows "all_reduce_grads x peers self =
           (self\<lparr>parameters := map visited pre @ q # post\<rparr>, [],
            Inl (RuntimeError requires_grad_message))"
  using assms
  by (simp add: all_reduce_grads_def collect_gradients_failure)

lemma all_reduce_grads_no_RuntimeError:
  assumes "\<forall>p\<in>set (parameters self). \<not> double_backward p"
  shows "snd (snd (all_reduce_grads x peers self)) \<noteq> Inl (RuntimeError msg)"
  using assms
  by (simp add: all_reduce_grads_def collect_gradients_success Let_def)

lemma untouched_visited:
  "list_all2 (\<lambda>p p'. \<not> requires_grad p \<longrightarrow> p' = p) ps (map visited ps)"
  by (induction ps) (simp_all add: visited_frozen)

lemma untouched_refl:
  "list_all2 (\<lambda>p p'. \<not> requires_grad p \<longrightarrow> p' = p) ps ps"
  by (simp add: list_all2_refl)

lemma untouched_store_gradients:
  "list_all2 (\<lambda>p p'. \<not> requires_grad p \<longrightarrow> p' = (p::parameter)) ps
     (store_gradients (map visited ps) gs)"
proof (induction ps arbitrary: gs)
  case Nil
  then show ?case by simp
next
  case (Cons p ps)
  show ?case
  proof (cases "requires_grad p")
    case True
    then show ?thesis
      using Cons untouched_visited [of ps]
      by (cases gs) (simp_all add: requires_grad_visited)
  next
    case False
    then show ?thesis
      using Cons by (simp add: requires_grad_visited visited_frozen)
  qed
qed

lemma all_reduce_grads_untouched:
  "list_all2 (\<lambda>p p'. \<not> requires_grad p \<longrightarrow> p' = p) (parameters self)
     (parameters (fst (all_reduce_grads x peers self)))"
proof (cases "\<exists>p\<in>set (parameters self). double_backward p")
  case True
  then obtain pre q post where split: "parameters self = pre @ q # post"
    and pre: "\<forall>p\<in>set pre. \<not> double_backward p" and q: "double_backward q"
    using first_double_backward by blast
  have "list_all2 (\<lambda>p p'. \<not> requires_grad p \<longrightarrow> p' = p) (pre @ q # post)
          (map visited pre @ q # post)"
    by (intro list_all2_appendI untouched_visited untouched_refl)
  then show ?thesis
    using split by (simp add: all_reduce_grads_failure [OF split pre q])
next
  case False
  then have ok: "\<forall>p\<in>set (parameters self). \<not> double_backward p" by blast
  show ?thesis
    using untouched_visited [of "parameters self"]
      untouched_store_gradients [of "parameters self"]
    by (simp add: all_reduce_grads_def collect_gradients_success [OF ok] Let_def)
qed

lemma all_reduce_grads_inputs:
  "\<forall>call\<in>set (fst (snd (all_reduce_grads x peers self))).
     inputs call = map gradient_or_zeros (filter requires_grad (parameters self))"
proof (cases "\<exists>p\<in>set (parameters self). double_backward p")
  case True
  then obtain pre q post where split: "parameters self = pre @ q # post"
    and pre: "\<forall>p\<in>set pre. \<not> double_backward p" and q: "double_backward q"
    using first_double_backward by blast
  show ?thesis
    by (simp add: all_reduce_grads_failure [OF split pre q])
next
  case False
  then have ok: "\<forall>p\<in>set (parameters self). \<not> double_backward p" by blast
  show ?thesis
    by (simp add: all_reduce_grads_def collect_gradients_success [OF ok] Let_def)
qed

text \<open>
  Claim C6. When no gradient requires a gradient itself, torch_xla can be imported and
  the world size is positive, \<^verbatim>\<open>all_reduce_grads\<close> issues exactly one collective:
  a sum, scaled by \<open>1 / world_size\<close>, over the gradients of the parameters that require
  one, in order, where a parameter without a gradient contributes zeros of its shape.
  The reduced tensors are what these parameters hold afterwards. When the other
  \<open>world_size - 1\<close> workers contribute the same gradients as this one, every such
  parameter ends with the gradient it contributed.
\<close>

theorem all_reduce_grads_zero_fills_and_averages:
  assumes "\<forall>p\<in>set (parameters self). \<not> double_backward p" and "0 < world_size self"
  shows "all_reduce_grads True peers self =
           (self\<lparr>parameters :=
                   store_gradients (map visited (parameters self))
                     (xm_all_reduce (1 / real (world_size self))
                        (map gradient_or_zeros (filter requires_grad (parameters self))) peers)\<rparr>,
            [\<lparr>reduce_type = ''sum'',
              inputs = map gradient_or_zeros (filter requires_grad (parameters self)),
              scale = 1 / real (world_size self),
              groups = snd (process_group self)\<rparr>],
            Inr ())
       \<and> (\<forall>p\<in>set (parameters self). requires_grad p \<and> grad p = None \<longrightarrow>
            gradient_or_zeros p =
              \<lparr>shape = shape p, entries = replicate (prod_list (shape p)) 0,
               requires_grad = False\<rparr>)
       \<and> (peers = replicate (world_size self - 1)
                     (map gradient_or_zeros (filter requires_grad (parameters self))) \<longrightarrow>
            parameters (fst (all_reduce_grads True peers self)) =
              map (\<lambda>p. if requires_grad p then p\<lparr>grad := Some (gradient_or_zeros p)\<rparr> else p)
                (parameters self))"
proof -
  have run: "all_reduce_grads True peers self =
           (self\<lparr>parameters :=
                   store_gradients (map visited (parameters self))
                     (xm_all_reduce (1 / real (world_size self))
                        (map gradient_or_zeros (filter requires_grad (parameters self))) peers)\<rparr>,
            [\<lparr>reduce_type = ''sum'',
              inputs = map gradient_or_zeros (filter requires_grad (parameters self)),
              scale = 1 / real (world_size self),
              groups = snd (process_group self)\<rparr>],
            Inr ())"
    using assms by (rule all_reduce_grads_success)
  have zeros: "\<forall>p\<in>set (parameters self). requires_grad p \<and> grad p = None \<longrightarrow>
            gradient_or_zeros p =
              \<lparr>shape = shape p, entries = replicate (prod_list (shape p)) 0,
               requires_grad = False\<rparr>"
    by (simp add: gradient_or_zeros_def zeros_like_def)
  have same: "parameters (fst (all_reduce_grads True peers self)) =
              map (\<lambda>p. if requires_grad p then p\<lparr>grad := Some (gradient_or_zeros p)\<rparr> else p)
                (parameters self)"
    if "peers = replicate (world_size self - 1)
                     (map gradient_or_zeros (filter requires_grad (parameters self)))"
  proof -
    have "xm_all_reduce (1 / real (world_size self))
            (map gradient_or_zeros (filter requires_grad (parameters self))) peers
          = map gradient_or_zeros (filter requires_grad (parameters self))"
      unfolding that using assms(2) by (rule xm_all_reduce_identical)
    then have "parameters (fst (all_reduce_grads True peers self)) = map visited (parameters self)"
      by (simp add: run store_gradients_own)
    then show ?thesis
      by (simp add: visited_def [abs_def])
  qed
  show ?thesis
    using run zeros same by blast
qed

theorem all_reduce_grads_zero_fills_and_averages_witness:
  "\<not> (\<exists>p\<in>set (parameters example_tpu). double_backward p)
   \<and> 0 < world_size example_tpu
   \<and> all_reduce_grads True
        [[\<lparr>shape = [3], entries = [0, 0, 0], requires_grad = False\<rparr>,
          \<lparr>shape = [2], entries = [3 / 2, - 2], requires_grad = False\<rparr>]] example_tpu
      = (example_tpu\<lparr>parameters :=
           [fresh_parameter\<lparr>grad := Some \<lparr>shape = [3], entries = [0, 0, 0], requires_grad = False\<rparr>\<rparr>,
            frozen_parameter, trained_parameter]\<rparr>,
         [\<lparr>reduce_type = ''sum'',
           inputs = [\<lparr>shape = [3], entries = [0, 0, 0], requires_grad = False\<rparr>,
                     \<lparr>shape = [2], entries = [3 / 2, - 2], requires_grad = False\<rparr>],
           scale = 1 / 2, groups = [[0, 1]]\<rparr>],
         Inr ())"
  using all_reduce_grads_zero_fills_and_averages [of example_tpu
      "[[\<lparr>shape = [3], entries = [0, 0, 0], requires_grad = False\<rparr>,
         \<lparr>shape = [2], entries = [3 / 2, - 2], requires_grad = False\<rparr>]]"]
  by (simp add: example_tpu_def fresh_parameter_def frozen_parameter_def
      trained_parameter_def double_backward_def gradient_or_zeros_def zeros_like_def
      visited_def xm_all_reduce_def add_tensor_def scale_tensor_def eval_nat_numeral)

text \<open>
  Claim C9. \<^verbatim>\<open>all_reduce_grads\<close> raises \<^verbatim>\<open>RuntimeError\<close> exactly when some
  parameter that requires a gradient holds a gradient that requires one itself. It
  then returns at once with that exception, and no collective has been issued.
\<close>

theorem all_reduce_grads_raises_iff:
  "((\<exists>msg. snd (snd (all_reduce_grads x peers self)) = Inl (RuntimeError msg))
      \<longleftrightarrow> (\<exists>p\<in>set (parameters self). double_backward p))
   \<and> ((\<exists>p\<in>set (parameters self). double_backward p) \<longrightarrow>
        snd (all_reduce_grads x peers self) = ([], Inl (RuntimeError requires_grad_message)))"
proof (cases "\<exists>p\<in>set (parameters self). double_backward p")
  case True
  then obtain pre q post where split: "parameters self = pre @ q # post"
    and pre: "\<forall>p\<in>set pre. \<not> double_backward p" and q: "double_backward q"
    using first_double_backward by blast
  show ?thesis
    using True by (simp add: all_reduce_grads_failure [OF split pre q])
next
  case False
  then have ok: "\<forall>p\<in>set (parameters self). \<not> double_backward p" by blast
  show ?thesis
    using False all_reduce_grads_no_RuntimeError [OF ok] by blast
qed

theorem all_reduce_grads_raises_iff_witness:
  "(\<exists>p\<in>set (parameters failing_tpu). double_backward p)
   \<and> snd (all_reduce_grads True [] failing_tpu) = ([], Inl (RuntimeError requires_grad_message))
   \<and> \<not> (\<exists>p\<in>set (parameters example_tpu). double_backward p)
   \<and> \<not> (\<exists>msg. snd (snd (all_reduce_grads True [] example_tpu)) = Inl (RuntimeError msg))"
  using all_reduce_grads_raises_iff [of True "[]" failing_tpu]
    all_reduce_grads_raises_iff [of True "[]" example_tpu]
  by (simp add: failing_tpu_def example_tpu_def fresh_parameter_def frozen_parameter_def
      trained_parameter_def double_backward_parameter_def double_backward_def)

text \<open>
  Claim C10. When \<^verbatim>\<open>all_reduce_grads\<close> raises \<^verbatim>\<open>RuntimeError\<close>, the parameters
  before the first offending one have been visited: those that require a gradient
  and had none now hold zeros, and keep them. The offending parameter and the ones
  after it are as they were. Whether it raises or not, a parameter that does not
  require a gradient is left as it was, and the collective, when one is issued,
  receives the gradients of the parameters that require one and nothing else.
\<close>

theorem all_reduce_grads_not_atomic:
  "(snd (snd (all_reduce_grads x peers self)) = Inl (RuntimeError msg) \<longrightarrow>
      (\<exists>pre q post. parameters self = pre @ q # post
         \<and> (\<forall>p\<in>set pre. \<not> double_backward p) \<and> double_backward q
         \<and> parameters (fst (all_reduce_grads x peers self)) =
             map (\<lambda>p. if requires_grad p then p\<lparr>grad := Some (gradient_or_zeros p)\<rparr> else p) pre
             @ q # post))
   \<and> list_all2 (\<lambda>p p'. \<not> requires_grad p \<longrightarrow> p' = p) (parameters self)
        (parameters (fst (all_reduce_grads x peers self)))
   \<and> (\<forall>call\<in>set (fst (snd (all_reduce_grads x peers self))).
        inputs call = map gradient_or_zeros (filter requires_grad (parameters self)))"
proof -
  have "\<exists>pre q post. parameters self = pre @ q # post
         \<and> (\<forall>p\<in>set pre. \<not> double_backward p) \<and> double_backward q
         \<and> parameters (fst (all_reduce_grads x peers self)) =
             map (\<lambda>p. if requires_grad p then p\<lparr>grad := Some (gradient_or_zeros p)\<rparr> else p) pre
             @ q # post"
    if raised: "snd (snd (all_reduce_grads x peers self)) = Inl (RuntimeError msg)"
  proof -
    have "\<exists>p\<in>set (parameters self). double_backward p"
      using raised all_reduce_grads_no_RuntimeError [of self x peers msg] by blast
    then obtain pre q post where split: "parameters self = pre @ q # post"
      and pre: "\<forall>p\<in>set pre. \<not> double_backward p" and q: "double_backward q"
      using first_double_backward by blast
    have "parameters (fst (all_reduce_grads x peers self)) = map visited pre @ q # post"
      by (simp add: all_reduce_grads_failure [OF split pre q])
    then show ?thesis
      using split pre q by (auto simp add: visited_def [abs_def])
  qed
  then show ?thesis
    using all_reduce_grads_untouched [of self x peers] all_reduce_grads_inputs [of x peers self]
    by blast
qed

theorem all_reduce_grads_not_atomic_witness:
  "snd (snd (all_reduce_grads True [] failing_tpu)) = Inl (RuntimeError requires_grad_message)
   \<and> parameters (fst (all_reduce_grads True [] failing_tpu)) =
       [fresh_parameter\<lparr>grad := Some \<lparr>shape = [3], entries = [0, 0, 0], requires_grad = False\<rparr>\<rparr>,
        frozen_parameter, double_backward_parameter, fresh_parameter]"
  using all_reduce_grads_not_atomic [of True "[]" failing_tpu requires_grad_message]
  by (simp add: all_reduce_grads_def failing_tpu_def fresh_parameter_def frozen_parameter_def
      double_backward_parameter_def zeros_like_def eval_nat_numeral)

end
